theory Spec2Isabelle
  imports Complex_Main
begin

section \<open>Data model\<close>

text \<open>
  A row of an OHLC frame, with the columns of \<^verbatim>\<open>fetch_ohlc\<close>
  (\<^verbatim>\<open>time, open, high, low, close, vwap, volume, count\<close>). The time is the candle's
  timestamp in whole seconds since the epoch (UTC), as the exchange sends it. Prices and
  volumes are Python floats; they are modelled as real numbers, so every statement below
  is about exact arithmetic on finite values (no rounding, no NaN inside a candle).
\<close>

record candle =
  time :: int
  opn :: real
  high :: real
  low :: real
  close :: real
  vwap :: real
  volume :: real
  count :: int

text \<open>The exceptions the modelled functions can raise.\<close>

datatype error =
    UpstreamError        \<comment> \<open>\<^verbatim>\<open>client.get_ohlc\<close> raised (HTTP or API error)\<close>
  | FileNotFoundError    \<comment> \<open>\<^verbatim>\<open>pd.read_parquet\<close> on a missing file\<close>
  | KeyError             \<comment> \<open>missing dictionary key or frame column\<close>
  | IndexError           \<comment> \<open>\<^verbatim>\<open>iloc\<close> out of bounds\<close>
  | ValueError           \<comment> \<open>a library call rejected its argument\<close>
  | PolyfitError         \<comment> \<open>the least-squares fit rejected its points\<close>

section \<open>Settings (config/settings.py)\<close>

text \<open>The only resample rule the settings use is the month-end rule \<^verbatim>\<open>"ME"\<close>.\<close>

datatype rule = ME

record timeframe_config =
  interval_minutes :: int
  history_days :: "int option"
  cache_ttl_hours :: int
  resample_rule :: "rule option"

text \<open>\<^verbatim>\<open>TimeframeConfig.cache_ttl\<close>, in microseconds (the resolution of a Python datetime).\<close>

definition cache_ttl :: "timeframe_config \<Rightarrow> int" where
  "cache_ttl cfg = cache_ttl_hours cfg * 3600 * 1000000"

definition TIMEFRAMES :: "string \<Rightarrow> timeframe_config option" where
  "TIMEFRAMES tf =
     (if tf = ''monthly'' then
        Some \<lparr>interval_minutes = 1440, history_days = None, cache_ttl_hours = 24,
              resample_rule = Some ME\<rparr>
      else if tf = ''daily'' then
        Some \<lparr>interval_minutes = 1440, history_days = None, cache_ttl_hours = 6,
              resample_rule = None\<rparr>
      else if tf = ''4h'' then
        Some \<lparr>interval_minutes = 240, history_days = Some 7, cache_ttl_hours = 2,
              resample_rule = None\<rparr>
      else None)"

section \<open>OHLC cache (src/api/data\_fetcher.py)\<close>

subsection \<open>The calendar behind the month-end rule\<close>

text \<open>
  \<^verbatim>\<open>resample("ME")\<close> puts a row into the bucket of its calendar month (UTC) and labels
  the bucket with midnight of the month's last day. The civil calendar is computed on
  day numbers (days since 1970-01-01) in the proleptic Gregorian calendar.
\<close>

definition days_from_civil :: "int \<Rightarrow> int \<Rightarrow> int \<Rightarrow> int" where
  "days_from_civil y m d =
     (let y' = (if m \<le> 2 then y - 1 else y);
          era = y' div 400;
          yoe = y' - era * 400;
          mp = (if m > 2 then m - 3 else m + 9);
          doy = (153 * mp + 2) div 5 + d - 1;
          doe = yoe * 365 + yoe div 4 - yoe div 100 + doy
      in era * 146097 + doe - 719468)"

definition civil_from_days :: "int \<Rightarrow> int \<times> int" where
  "civil_from_days z0 =
     (let z = z0 + 719468;
          era = z div 146097;
          doe = z - era * 146097;
          yoe = (doe - doe div 1460 + doe div 36524 - doe div 146096) div 365;
          doy = doe - (365 * yoe + yoe div 4 - yoe div 100);
          mp = (5 * doy + 2) div 153;
          m = (if mp < 10 then mp + 3 else mp - 9);
          y = yoe + era * 400
      in (if m \<le> 2 then y + 1 else y, m))"

definition month_end :: "int \<Rightarrow> int" where
  "month_end t =
     (case civil_from_days (t div 86400) of
        (y, m) \<Rightarrow>
          (if m = 12 then days_from_civil (y + 1) 1 1 else days_from_civil y (m + 1) 1) * 86400
            - 86400)"

fun bucket_label :: "rule \<Rightarrow> int \<Rightarrow> int" where
  "bucket_label ME t = month_end t"

subsection \<open>Resampling\<close>

text \<open>
  \<^verbatim>\<open>_resample_ohlc\<close>: one row per bucket, \<^verbatim>\<open>open\<close> the first, \<^verbatim>\<open>high\<close> the
  maximum, \<^verbatim>\<open>low\<close> the minimum, \<^verbatim>\<open>close\<close> the last, \<^verbatim>\<open>vwap\<close> the mean,
  \<^verbatim>\<open>volume\<close> and \<^verbatim>\<open>count\<close> the sums of the bucket's rows, in the order of the frame.
  A bucket with no row aggregates to nulls and is removed by \<^verbatim>\<open>dropna\<close>, so the result
  has exactly the buckets that hold a row, in ascending order of their labels.
\<close>

definition agg :: "int \<Rightarrow> candle list \<Rightarrow> candle" where
  "agg label rows =
     \<lparr>time = label,
      opn = opn (hd rows),
      high = Max (set (map high rows)),
      low = Min (set (map low rows)),
      close = close (last rows),
      vwap = sum_list (map vwap rows) / real (length rows),
      volume = sum_list (map volume rows),
      count = sum_list (map count rows)\<rparr>"

definition resample_ohlc :: "candle list \<Rightarrow> rule \<Rightarrow> candle list" where
  "resample_ohlc df r =
     map (\<lambda>l. agg l (filter (\<lambda>c. bucket_label r (time c) = l) df))
       (sort (remdups (map (\<lambda>c. bucket_label r (time c)) df)))"

subsection \<open>Freshness and the since cursor\<close>

text \<open>
  The cache file of one pair and timeframe: its modification time (microseconds since the
  epoch) and the frame it holds. A missing file is \<open>None\<close>.
\<close>

record cache_file =
  mtime :: int
  content :: "candle list"

text \<open>
  \<^verbatim>\<open>fetch_ohlc\<close> reads the wall clock in \<^verbatim>\<open>_is_cache_fresh\<close> and in
  \<^verbatim>\<open>_kraken_ts\<close>, and the file system stamps the written file: three readings, in
  microseconds since the epoch.
\<close>

record clock =
  now_fresh :: int
  now_since :: int
  now_write :: int

definition is_cache_fresh :: "cache_file option \<Rightarrow> int \<Rightarrow> int \<Rightarrow> bool" where
  "is_cache_fresh path ttl now =
     (case path of None \<Rightarrow> False | Some f \<Rightarrow> now - mtime f < ttl)"

text \<open>Python's \<^verbatim>\<open>int(x)\<close> on a float of seconds: truncation towards zero.\<close>

definition int_seconds :: "int \<Rightarrow> int" where
  "int_seconds us = (if 0 \<le> us then us div 1000000 else - ((- us) div 1000000))"

definition kraken_ts :: "int option \<Rightarrow> int \<Rightarrow> int option" where
  "kraken_ts days_back now =
     (case days_back of
        None \<Rightarrow> None
      | Some d \<Rightarrow> Some (int_seconds (now - d * 86400 * 1000000)))"

definition read_parquet :: "cache_file option \<Rightarrow> error + candle list" where
  "read_parquet path = (case path of None \<Rightarrow> Inl FileNotFoundError | Some f \<Rightarrow> Inr (content f))"

text \<open>
  Lines 175 to 182 of \<^verbatim>\<open>fetch_ohlc\<close>. \<open>base_df\<close> is the frame read from the cache
  file when the file exists and no refresh is forced. Python's \<^verbatim>\<open>since or last_ts\<close>
  takes \<^verbatim>\<open>last_ts\<close> when \<^verbatim>\<open>since\<close> is \<^verbatim>\<open>None\<close> or \<^verbatim>\<open>0\<close>.
\<close>

definition base_frame :: "cache_file option \<Rightarrow> bool \<Rightarrow> candle list option" where
  "base_frame path refresh =
     (case path of None \<Rightarrow> None | Some f \<Rightarrow> if refresh then None else Some (content f))"

definition since_cursor :: "timeframe_config \<Rightarrow> int \<Rightarrow> candle list option \<Rightarrow> int option" where
  "since_cursor cfg now base_df =
     (let since = kraken_ts (history_days cfg) now in
      case base_df of
        None \<Rightarrow> since
      | Some b \<Rightarrow>
          if b = [] then since
          else
            (let last_ts = Max (set (map time b));
                 since_or_last = (case since of None \<Rightarrow> last_ts
                                  | Some s \<Rightarrow> if s = 0 then last_ts else s)
             in Some (max since_or_last (last_ts - interval_minutes cfg * 60))))"

subsection \<open>Merging and the fetch\<close>

text \<open>
  \<^verbatim>\<open>drop_duplicates(subset=["time"])\<close> with the default \<^verbatim>\<open>keep="first"\<close>: of the
  rows sharing a timestamp, the first one in frame order stays.
\<close>

fun drop_duplicates :: "candle list \<Rightarrow> candle list" where
  "drop_duplicates [] = []"
| "drop_duplicates (c # cs) = c # drop_duplicates (filter (\<lambda>d. time d \<noteq> time c) cs)"

text \<open>
  \<^verbatim>\<open>sort_values("time")\<close> is modelled as a stable sort; on frames whose timestamps are
  distinct every sorting algorithm gives the same frame.

  The upstream collaborator \<open>get_ohlc\<close> takes the interval and the since cursor and
  returns the rows of the response (already converted to numbers) or raises. The result
  of \<open>fetch_ohlc\<close> is the returned frame and the cache file after the call. The state
  file \<^verbatim>\<open>ohlc_state.json\<close> is written but never read back for a decision, and is left
  out.
\<close>

definition fetch_ohlc ::
    "(int \<Rightarrow> int option \<Rightarrow> error + candle list) \<Rightarrow> (string \<Rightarrow> timeframe_config option) \<Rightarrow>
     string \<Rightarrow> clock \<Rightarrow> cache_file option \<Rightarrow> bool \<Rightarrow>
     error + (candle list \<times> cache_file option)" where
  "fetch_ohlc get_ohlc timeframes tf clk path refresh =
     (case timeframes tf of
        None \<Rightarrow> Inl KeyError
      | Some cfg \<Rightarrow>
          if \<not> refresh \<and> is_cache_fresh path (cache_ttl cfg) (now_fresh clk) then
            (case read_parquet path of Inl e \<Rightarrow> Inl e | Inr d \<Rightarrow> Inr (d, path))
          else
            (let base_df = base_frame path refresh;
                 since = since_cursor cfg (now_since clk) base_df
             in case get_ohlc (interval_minutes cfg) since of
                  Inl e \<Rightarrow> Inl e
                | Inr raw \<Rightarrow>
                    (let df = sort_key time raw;
                         merged = (case base_df of
                                     None \<Rightarrow> df
                                   | Some b \<Rightarrow>
                                       if b = [] then df
                                       else sort_key time (drop_duplicates (b @ df)));
                         out = (case resample_rule cfg of
                                  None \<Rightarrow> merged
                                | Some r \<Rightarrow> resample_ohlc merged r)
                     in Inr (out, Some \<lparr>mtime = now_write clk, content = out\<rparr>))))"

section \<open>Pattern detector, variant A (src/analysis/pattern\_detector.py)\<close>

record pattern_result =
  passed :: bool
  slope :: real
  peaks :: "candle list"
  score :: real
  violations :: nat
  max_break_pct :: real
  reason :: "string option"

text \<open>
  \<^verbatim>\<open>argrelextrema(highs, np.greater, order=order)\<close> with scipy's default mode
  \<^verbatim>\<open>clip\<close>: position \<open>i\<close> is kept when, for every shift from 1 to \<open>order\<close>, the value
  at \<open>i\<close> is greater than the values at \<open>i + shift\<close> and \<open>i - shift\<close>, an index beyond
  either end being clipped to that end.
\<close>

definition clip_take :: "real list \<Rightarrow> int \<Rightarrow> real" where
  "clip_take data i = data ! nat (max 0 (min i (int (length data) - 1)))"

definition is_rel_max :: "real list \<Rightarrow> nat \<Rightarrow> nat \<Rightarrow> bool" where
  "is_rel_max data ord i =
     list_all (\<lambda>shift. data ! i > clip_take data (int i + int shift)
                      \<and> data ! i > clip_take data (int i - int shift)) [1..<Suc ord]"

definition argrelextrema_greater :: "real list \<Rightarrow> nat \<Rightarrow> nat list" where
  "argrelextrema_greater data ord = filter (is_rel_max data ord) [0..<length data]"

text \<open>
  The loop over consecutive peak highs (lines 45 to 52); the accumulator is
  \<^verbatim>\<open>(descending_steps, violations, max_break_pct)\<close>.
\<close>

fun walk_peaks :: "real \<Rightarrow> real list \<Rightarrow> nat \<times> nat \<times> real \<Rightarrow> nat \<times> nat \<times> real" where
  "walk_peaks prev [] acc = acc"
| "walk_peaks prev (h # hs) (d, v, m) =
     walk_peaks h hs
       (if h < prev then (d + 1, v, m)
        else (d, v + 1, if prev > 0 then max m ((h - prev) / prev) else m))"

definition steps :: "real list \<Rightarrow> nat \<times> nat \<times> real" where
  "steps highs_series =
     (case highs_series of [] \<Rightarrow> (0, 0, 0) | h # hs \<Rightarrow> walk_peaks h hs (0, 0, 0))"

text \<open>
  \<^verbatim>\<open>np.polyfit(np.arange(len(y)), y, 1)\<close> returns the slope of the least-squares line
  through \<open>(0, y\<^sub>0), (1, y\<^sub>1), \<dots>\<close> as a float: close to the exact slope, but rounded, so
  that where the exact slope is 0 the sign of the returned slope is the library's, not the
  mathematics'. The detector tests that sign, so it takes the fit as a parameter \<open>fit\<close>:
  the slope the library returns for a list of values, or the exception it raises.

  \<open>lsq_slope\<close> is the exact slope. \<open>exact_fit\<close> is the fit without rounding, raising
  on fewer than two points; it serves as a sample fit.
\<close>

definition lsq_slope :: "real list \<Rightarrow> real" where
  "lsq_slope ys =
     (let n = real (length ys);
          xs = map real [0..<length ys];
          sx = sum_list xs;
          sy = sum_list ys;
          sxy = sum_list (map2 (*) xs ys);
          sxx = sum_list (map (\<lambda>x. x * x) xs)
      in (n * sxy - sx * sy) / (n * sxx - sx * sx))"

definition exact_fit :: "real list \<Rightarrow> error + real" where
  "exact_fit ys = (if length ys < 2 then Inl PolyfitError else Inr (lsq_slope ys))"

definition failed :: "candle list \<Rightarrow> string \<Rightarrow> pattern_result" where
  "failed pk why =
     \<lparr>passed = False, slope = 0, peaks = pk, score = 0, violations = 0, max_break_pct = 0,
      reason = Some why\<rparr>"

definition detect_lower_highs_scored ::
    "(real list \<Rightarrow> error + real) \<Rightarrow> candle list \<Rightarrow> int \<Rightarrow> int \<Rightarrow> error + pattern_result" where
  "detect_lower_highs_scored fit df min_peaks ord =
     (if df = [] then Inr (failed [] ''no data'')
      else if int (length df) < max (min_peaks * ord) 5 then Inr (failed [] ''insufficient candles'')
      else if ord < 1 then Inl ValueError
      else
        (let highs = map high df;
             peak_idx = argrelextrema_greater highs (nat ord);
             pk = map (\<lambda>i. df ! i) peak_idx
         in if int (length pk) < min_peaks then Inr (failed pk ''not enough peaks'')
            else
              (let highs_series = map high pk;
                   total_steps = int (length highs_series) - 1
               in case steps highs_series of
                    (descending_steps, viol, max_break) \<Rightarrow>
                      (let base_score = (if total_steps > 0
                                         then real descending_steps / real_of_int total_steps
                                         else 0);
                           penalty = min (max_break * 0.5) 0.5;
                           score0 = max (base_score - penalty) 0
                       in case fit highs_series of
                            Inl e \<Rightarrow> Inl e
                          | Inr sl \<Rightarrow>
                              (let score1 = (if sl \<ge> 0 then score0 * 0.5 else score0);
                                   ok = (score1 \<ge> 0.5 \<and> descending_steps \<ge> 2)
                               in Inr \<lparr>passed = ok, slope = sl, peaks = pk, score = score1,
                                       violations = viol, max_break_pct = max_break,
                                       reason = (if ok then None else Some ''weak descent'')\<rparr>)))))"

section \<open>Pattern detector, variant B (src/analysis/pattern\_detector2.py)\<close>

text \<open>
  The indicator frame of one pair and timeframe, as \<^verbatim>\<open>_load_indicators\<close> returns it
  (\<open>None\<close> when the file is missing or unreadable): the names of its columns and its
  rows. A row gives its time (seconds since the epoch, read only when the frame has a
  \<^verbatim>\<open>time\<close> column) and the value of each column, \<open>None\<close> for a null.
\<close>

record ind_row =
  row_time :: int
  row_val :: "string \<Rightarrow> real option"

record ind_frame =
  columns :: "string list"
  rows :: "ind_row list"

definition PAT2_MONTHS_LOOKBACK :: nat where "PAT2_MONTHS_LOOKBACK = 2"
definition PAT2_DAILY_LOOKBACK_DAYS :: int where "PAT2_DAILY_LOOKBACK_DAYS = 30"
definition PAT2_DAILY_RECENT_DAYS :: int where "PAT2_DAILY_RECENT_DAYS = 7"
definition PAT2_4H_LOOKBACK_DAYS :: int where "PAT2_4H_LOOKBACK_DAYS = 7"
definition PAT2_4H_RECENT_BARS :: nat where "PAT2_4H_RECENT_BARS = 12"

text \<open>
  \<^verbatim>\<open>_slope\<close>. Variant B only reports this slope: no branch tests it, so it is given
  as the exact least-squares slope.
\<close>

definition slope_of :: "real list \<Rightarrow> real" where
  "slope_of y = (if length y < 2 then 0 else lsq_slope y)"

text \<open>
  \<^verbatim>\<open>ind.dropna(subset=[col])\<close> keeps the rows whose \<open>col\<close> is not null, and raises a
  \<^verbatim>\<open>KeyError\<close> when the frame has no such column. \<open>col_values\<close> is the column of the
  kept rows, \<^verbatim>\<open>clean[col]\<close>.
\<close>

definition dropna_rows :: "ind_frame \<Rightarrow> string \<Rightarrow> ind_row list" where
  "dropna_rows ind col = filter (\<lambda>r. row_val r col \<noteq> None) (rows ind)"

definition dropna :: "ind_frame \<Rightarrow> string \<Rightarrow> error + ind_row list" where
  "dropna ind col = (if col \<in> set (columns ind) then Inr (dropna_rows ind col) else Inl KeyError)"

definition col_values :: "ind_row list \<Rightarrow> string \<Rightarrow> real list" where
  "col_values rs col = List.map_filter (\<lambda>r. row_val r col) rs"

text \<open>Python's \<^verbatim>\<open>reason or default\<close> on an optional string.\<close>

definition or_else :: "string option \<Rightarrow> string \<Rightarrow> string" where
  "or_else r dflt = (case r of None \<Rightarrow> dflt | Some t \<Rightarrow> if t = [] then dflt else t)"

definition ema_desc ::
    "ind_frame option \<Rightarrow> string \<Rightarrow> nat \<Rightarrow> bool \<Rightarrow> real \<Rightarrow> bool \<times> string option" where
  "ema_desc ind col lag strict tol =
     (case ind of
        None \<Rightarrow> if strict then (False, Some (''missing '' @ col)) else (True, None)
      | Some f \<Rightarrow>
          if col \<notin> set (columns f) then
            (if strict then (False, Some (''missing '' @ col)) else (True, None))
          else
            (let clean = col_values (dropna_rows f col) col
             in if length clean \<le> lag then
                  (if strict then (False, Some (''insufficient '' @ col)) else (True, None))
                else
                  (let past_val = clean ! (length clean - (lag + 1));
                       recent_val = last clean;
                       descending = (recent_val < past_val * (1 + tol))
                   in (descending,
                       if descending then None else Some (col @ '' not descending'')))))"

text \<open>
  The trend check of the daily branch, lines 85 to 108. The second
  \<^verbatim>\<open>ind.dropna(subset=["ema_200"])\<close> (line 98) is not guarded by a column test, so it
  raises when the frame has an \<^verbatim>\<open>ema_50\<close> column and no \<^verbatim>\<open>ema_200\<close> column.
\<close>

definition daily_ema_rule :: "ind_frame option \<Rightarrow> error + (bool \<times> string option)" where
  "daily_ema_rule ind =
     (case ind of
        None \<Rightarrow> Inr (False, Some ''missing ema 50'')
      | Some f \<Rightarrow>
          if ''ema_50'' \<in> set (columns f) then
            (let clean = dropna_rows f ''ema_50'';
                 ema50_ready = (length clean > 50);
                 r50 = (if ema50_ready then ema_desc ind ''ema_50'' 50 True 0
                        else (False, None));
                 r200 = (if ''ema_200'' \<in> set (columns f)
                            \<and> length (dropna_rows f ''ema_200'') > 200
                         then ema_desc ind ''ema_200'' 200 True 0
                         else (True, None))
             in case dropna f ''ema_200'' of
                  Inl e \<Rightarrow> Inl e
                | Inr c200 \<Rightarrow>
                    if length c200 > 200 then
                      (let ema_pass = (fst r50 \<and> fst r200)
                       in Inr (ema_pass,
                               if ema_pass then None
                               else Some (or_else (snd r200)
                                            (or_else (snd r50) ''ema 50/200 not descending''))))
                    else
                      (let ema_pass = fst r50
                       in Inr (ema_pass,
                               if ema_pass then None
                               else Some (or_else (snd r50) ''ema 50 not descending''))))
          else Inr (False, Some ''missing ema 50''))"

text \<open>The trend check of the 4h branch, lines 126 to 139; \<open>cutoff\<close> is in microseconds.\<close>

definition h4_ema_rule :: "ind_frame option \<Rightarrow> int \<Rightarrow> bool \<times> string option" where
  "h4_ema_rule ind cutoff =
     (case ind of
        None \<Rightarrow> (False, Some ''missing ema_7'')
      | Some f \<Rightarrow>
          if ''ema_7'' \<in> set (columns f) then
            (let ind_window =
                   (if ''time'' \<in> set (columns f)
                    then f\<lparr>rows := filter (\<lambda>r. row_time r * 1000000 \<ge> cutoff) (rows f)\<rparr>
                    else f);
                 ind_clean = ind_window\<lparr>rows := dropna_rows ind_window ''ema_7''\<rparr>
             in if length (rows ind_clean) > 7
                then ema_desc (Some ind_clean) ''ema_7'' 7 True 0.002
                else (False, Some ''insufficient ema_7''))
          else (False, Some ''missing ema_7''))"

text \<open>
  The detector reads the wall clock: twice in the daily branch (the lookback cutoff and
  the recent cut), once in the 4h branch. The readings are in microseconds.
\<close>

record pclock =
  now_window :: int
  now_recent :: int

definition days_us :: "int \<Rightarrow> int" where
  "days_us d = d * 86400 * 1000000"

definition max_high :: "candle list \<Rightarrow> real" where
  "max_high xs = Max (set (map high xs))"

definition verdict :: "bool \<Rightarrow> real \<Rightarrow> candle list \<Rightarrow> string option \<Rightarrow> string \<Rightarrow> pattern_result" where
  "verdict ok sl win why dflt =
     \<lparr>passed = ok, slope = sl, peaks = win, score = (if ok then 1 else 0),
      violations = (if ok then 0 else 1), max_break_pct = 0,
      reason = (if ok then None else Some (or_else why dflt))\<rparr>"

definition detect_descending_rules ::
    "candle list \<Rightarrow> string \<Rightarrow> ind_frame option \<Rightarrow> pclock \<Rightarrow> error + pattern_result" where
  "detect_descending_rules df tf ind clk =
     (if df = [] then Inr (failed [] ''no data'')
      else if tf = ''monthly'' then
        (if length df < PAT2_MONTHS_LOOKBACK then Inr (failed [] ''insufficient months'')
         else
           (let last_two = drop (length df - PAT2_MONTHS_LOOKBACK) df;
                current_high = high (last last_two);
                prev_high = high (last_two ! (length last_two - 2));
                highs_pass = (current_high \<le> prev_high);
                ema = ema_desc ind ''ema_12'' 12 True 0;
                ok = (highs_pass \<and> fst ema)
            in Inr (verdict ok (slope_of (map high last_two)) last_two (snd ema)
                      ''current high > prev high'')))
      else if tf = ''daily'' then
        (let cutoff = now_window clk - days_us PAT2_DAILY_LOOKBACK_DAYS;
             window = filter (\<lambda>c. time c * 1000000 \<ge> cutoff) df
         in if window = [] then Inr (failed [] ''no recent data'')
            else
              (let recent_cut = now_recent clk - days_us PAT2_DAILY_RECENT_DAYS;
                   recent = filter (\<lambda>c. time c * 1000000 \<ge> recent_cut) window;
                   baseline = filter (\<lambda>c. time c * 1000000 < recent_cut) window
               in if baseline = [] \<or> recent = [] then Inr (failed window ''not enough split'')
                  else
                    (let highs_pass = (max_high recent \<le> max_high baseline)
                     in case daily_ema_rule ind of
                          Inl e \<Rightarrow> Inl e
                        | Inr ema \<Rightarrow>
                            (let ok = (highs_pass \<and> fst ema)
                             in Inr (verdict ok (slope_of (map high window)) window (snd ema)
                                       ''recent high > prior window'')))))
      else if tf = ''4h'' then
        (let cutoff = now_window clk - days_us PAT2_4H_LOOKBACK_DAYS;
             window = filter (\<lambda>c. time c * 1000000 \<ge> cutoff) df
         in if window = [] then Inr (failed [] ''no recent data'')
            else if length window \<le> PAT2_4H_RECENT_BARS then Inr (failed window ''not enough bars'')
            else
              (let recent = drop (length window - PAT2_4H_RECENT_BARS) window;
                   baseline = take (length window - PAT2_4H_RECENT_BARS) window
               in if baseline = [] then Inr (failed window ''not enough baseline'')
                  else
                    (let highs_pass = (max_high recent \<le> max_high baseline);
                         ema = h4_ema_rule ind cutoff;
                         ok = (highs_pass \<and> fst ema)
                     in Inr (verdict ok (slope_of (map high window)) window (snd ema)
                               ''recent high > prior bars''))))
      else Inr (failed [] ''unsupported tf''))"

section \<open>Volume profile (src/analysis/volume\_profile.py)\<close>

text \<open>
  A float that may be NaN is an optional real: \<open>None\<close> is NaN.
\<close>

record volume_profile_result =
  poc :: "real option"
  vah :: "real option"
  val :: "real option"
  bin_edges :: "real list"
  histogram :: "real list"

text \<open>
  \<^verbatim>\<open>np.histogram(prices, bins=bins, weights=volumes)\<close> in exact arithmetic: \<open>bins\<close>
  equal-width bins over the range of the prices (widened by one half on each side when
  all prices are equal), every bin closed on the left and open on the right, the last one
  closed on both sides; a bin's count is the sum of the weights of the prices in it.
\<close>

definition bin_index :: "real \<Rightarrow> real \<Rightarrow> nat \<Rightarrow> real \<Rightarrow> nat" where
  "bin_index lo hi bins x =
     (let i = nat \<lfloor>(x - lo) / (hi - lo) * real bins\<rfloor> in if i = bins then bins - 1 else i)"

definition np_histogram :: "real list \<Rightarrow> nat \<Rightarrow> real list \<Rightarrow> error + (real list \<times> real list)" where
  "np_histogram prices bins weights =
     (if bins < 1 then Inl ValueError
      else
        (let lo0 = (if prices = [] then 0 else Min (set prices));
             hi0 = (if prices = [] then 1 else Max (set prices));
             lo = (if lo0 = hi0 then lo0 - 0.5 else lo0);
             hi = (if lo0 = hi0 then hi0 + 0.5 else hi0);
             edges = map (\<lambda>i. lo + real i * (hi - lo) / real bins) [0..<Suc bins];
             hist = map (\<lambda>b. sum_list (map snd
                                 (filter (\<lambda>pw. bin_index lo hi bins (fst pw) = b)
                                    (zip prices weights))))
                      [0..<bins]
         in Inr (hist, edges)))"

text \<open>\<^verbatim>\<open>hist.argmax()\<close>: the first position of the maximum.\<close>

definition argmax :: "real list \<Rightarrow> nat" where
  "argmax hist = length (takeWhile (\<lambda>x. x \<noteq> Max (set hist)) hist)"

definition bin_midpoint :: "real list \<Rightarrow> nat \<Rightarrow> real" where
  "bin_midpoint edges idx = (edges ! idx + edges ! (idx + 1)) / 2"

text \<open>
  The loop of \<^verbatim>\<open>_value_area_bounds\<close>; its state is \<^verbatim>\<open>left\<close>, \<^verbatim>\<open>right\<close>,
  \<^verbatim>\<open>volume_accum\<close> and \<^verbatim>\<open>included\<close>. It is entered with
  \<open>-1 \<le> left < right \<le> length hist\<close>, so every index read is in range.
\<close>

function value_area_loop ::
    "real list \<Rightarrow> real \<Rightarrow> real \<Rightarrow> int \<Rightarrow> int \<Rightarrow> real \<Rightarrow> int list \<Rightarrow> int list" where
  "value_area_loop hist tot target left right volume_accum included =
     (if volume_accum / tot < target \<and> (left \<ge> 0 \<or> right < int (length hist)) then
        (if (if right < int (length hist) then hist ! nat right else - 1)
              \<ge> (if left \<ge> 0 then hist ! nat left else - 1)
            \<and> right < int (length hist)
         then value_area_loop hist tot target left (right + 1)
                (volume_accum + hist ! nat right) (right # included)
         else if left \<ge> 0
         then value_area_loop hist tot target (left - 1) right
                (volume_accum + hist ! nat left) (left # included)
         else included)
      else included)"
  by pat_completeness auto
termination
  by (relation "measure (\<lambda>(hist, tot, target, left, right, acc, inc).
                  nat (left + 1) + nat (int (length hist) - right))") auto

definition value_area_bounds :: "real list \<Rightarrow> real list \<Rightarrow> nat \<Rightarrow> real \<Rightarrow> real \<times> real" where
  "value_area_bounds hist edges poc_idx target =
     (let tot = sum_list hist;
          included = value_area_loop hist tot target (int poc_idx - 1) (int poc_idx + 1)
                       (hist ! poc_idx) [int poc_idx];
          lower_idx = Min (set included);
          upper_idx = Max (set included)
      in (edges ! nat (upper_idx + 1), edges ! nat lower_idx))"

definition nan_profile :: "real list \<Rightarrow> real list \<Rightarrow> volume_profile_result" where
  "nan_profile edges hist =
     \<lparr>poc = None, vah = None, val = None, bin_edges = edges, histogram = hist\<rparr>"

definition compute_volume_profile ::
    "candle list \<Rightarrow> nat \<Rightarrow> real \<Rightarrow> error + volume_profile_result" where
  "compute_volume_profile df bins target_value_area =
     (if df = [] \<or> sum_list (map volume df) = 0 then Inr (nan_profile [] [])
      else
        (case np_histogram (map close df) bins (map volume df) of
           Inl e \<Rightarrow> Inl e
         | Inr (hist, edges) \<Rightarrow>
             if sum_list hist = 0 then Inr (nan_profile edges hist)
             else
               (let poc_idx = argmax hist;
                    poc_price = bin_midpoint edges poc_idx
                in case value_area_bounds hist edges poc_idx target_value_area of
                     (va_high, va_low) \<Rightarrow>
                       Inr \<lparr>poc = Some poc_price, vah = Some va_high, val = Some va_low,
                            bin_edges = edges, histogram = hist\<rparr>)))"

section \<open>Scorer (src/scoring/coin\_ranker.py)\<close>

record timeframe_outcome =
  name :: string
  pattern :: pattern_result
  volume_profile :: volume_profile_result
  volume_decline :: real
  poc_distance :: real

definition TIMEFRAME_WEIGHTS :: "string \<Rightarrow> real option" where
  "TIMEFRAME_WEIGHTS tf =
     (if tf = ''monthly'' then Some 0.4
      else if tf = ''daily'' then Some 0.35
      else if tf = ''4h'' then Some 0.25
      else None)"

definition SOL_BONUS :: real where "SOL_BONUS = 0"

text \<open>\<^verbatim>\<open>np.clip(x, 0.0, 1.0)\<close>.\<close>

definition clip01 :: "real \<Rightarrow> real" where
  "clip01 x = min (max x 0) 1"

definition mean :: "real list \<Rightarrow> real" where
  "mean xs = sum_list xs / real (length xs)"

definition volume_decline_score :: "candle list \<Rightarrow> real" where
  "volume_decline_score df =
     (if length df < 10 then 0
      else
        (let split = max (length df div 4) 1;
             early = mean (map volume (take split df));
             recent = mean (map volume (drop (length df - split) df))
         in if early \<le> 0 then 0 else clip01 ((early - recent) / early)))"

text \<open>
  \<^verbatim>\<open>df["close"].iloc[-1]\<close> is read first and raises an \<^verbatim>\<open>IndexError\<close> on a frame
  without rows.
\<close>

definition poc_distance_score :: "candle list \<Rightarrow> volume_profile_result \<Rightarrow> error + real" where
  "poc_distance_score df vp =
     (if df = [] then Inl IndexError
      else
        (let last_close = close (last df)
         in case poc vp of
              None \<Rightarrow> Inr 0
            | Some p \<Rightarrow>
                if last_close = 0 then Inr 0
                else Inr (clip01 (1 - \<bar>last_close - p\<bar> / last_close))))"

definition score_timeframe ::
    "string \<Rightarrow> candle list \<Rightarrow> pattern_result \<Rightarrow> volume_profile_result \<Rightarrow> error + timeframe_outcome" where
  "score_timeframe tf_name df pat vp =
     (let vol_decline = volume_decline_score df
      in case poc_distance_score df vp of
           Inl e \<Rightarrow> Inl e
         | Inr poc_score \<Rightarrow>
             Inr \<lparr>name = tf_name, pattern = pat, volume_profile = vp,
                  volume_decline = vol_decline, poc_distance = poc_score\<rparr>)"

definition tf_score :: "timeframe_outcome \<Rightarrow> real" where
  "tf_score tf = 0.6 * score (pattern tf) + 0.25 * volume_decline tf + 0.15 * poc_distance tf"

definition aggregate_score :: "timeframe_outcome list \<Rightarrow> bool \<Rightarrow> real" where
  "aggregate_score timeframes is_sol =
     (let sc = foldl (\<lambda>acc tf. acc + (case TIMEFRAME_WEIGHTS (name tf) of
                                             None \<Rightarrow> 0 | Some w \<Rightarrow> w) * tf_score tf)
                    0 timeframes
      in if is_sol then sc + SOL_BONUS else sc)"

section \<open>Orchestrator (main.py)\<close>

definition PATTERN_DETECTOR_VERSION :: nat where "PATTERN_DETECTOR_VERSION = 2"

definition PATTERN_MIN_PEAKS :: "string \<Rightarrow> int option" where
  "PATTERN_MIN_PEAKS tf =
     (if tf = ''monthly'' then Some 3 else if tf = ''daily'' then Some 4
      else if tf = ''4h'' then Some 4 else None)"

definition PATTERN_ORDER :: "string \<Rightarrow> int option" where
  "PATTERN_ORDER tf =
     (if tf = ''monthly'' then Some 2 else if tf = ''daily'' then Some 2
      else if tf = ''4h'' then Some 2 else None)"

definition detect_pattern ::
    "(real list \<Rightarrow> error + real) \<Rightarrow> candle list \<Rightarrow> string \<Rightarrow> ind_frame option \<Rightarrow> pclock \<Rightarrow> error + pattern_result" where
  "detect_pattern fit df tf ind clk =
     (if PATTERN_DETECTOR_VERSION = 2 then detect_descending_rules df tf ind clk
      else
        (case PATTERN_MIN_PEAKS tf of
           None \<Rightarrow> Inl KeyError
         | Some mp \<Rightarrow>
             (case PATTERN_ORDER tf of
                None \<Rightarrow> Inl KeyError
              | Some ord \<Rightarrow> detect_lower_highs_scored fit df mp ord)))"

text \<open>
  The body of the loop of \<^verbatim>\<open>analyze_pair\<close> for one timeframe, and the loop. \<open>fetch\<close>
  is the call \<^verbatim>\<open>fetch_ohlc(client, pair, tf, refresh)\<close> as a function of the timeframe,
  \<open>inds\<close> the indicator cache of the pair, \<open>clk\<close> the clock readings of the detector's
  call for each timeframe, \<open>fit\<close> the least-squares fit that variant A consults. An
  exception ends the loop, as it ends \<^verbatim>\<open>analyze_pair\<close>.
\<close>

definition analyze_timeframe ::
    "(real list \<Rightarrow> error + real) \<Rightarrow> (string \<Rightarrow> error + candle list) \<Rightarrow> (string \<Rightarrow> ind_frame option) \<Rightarrow> (string \<Rightarrow> pclock) \<Rightarrow>
     string \<Rightarrow> error + timeframe_outcome" where
  "analyze_timeframe fit fetch inds clk tf =
     (case fetch tf of
        Inl e \<Rightarrow> Inl e
      | Inr df \<Rightarrow>
          (case detect_pattern fit df tf (inds tf) (clk tf) of
             Inl e \<Rightarrow> Inl e
           | Inr pat \<Rightarrow>
               (case compute_volume_profile df 30 0.7 of
                  Inl e \<Rightarrow> Inl e
                | Inr vp \<Rightarrow> score_timeframe tf df pat vp)))"

fun analyze_loop ::
    "(real list \<Rightarrow> error + real) \<Rightarrow> (string \<Rightarrow> error + candle list) \<Rightarrow> (string \<Rightarrow> ind_frame option) \<Rightarrow> (string \<Rightarrow> pclock) \<Rightarrow>
     string list \<Rightarrow> error + timeframe_outcome list" where
  "analyze_loop fit fetch inds clk [] = Inr []"
| "analyze_loop fit fetch inds clk (tf # tfs) =
     (case analyze_timeframe fit fetch inds clk tf of
        Inl e \<Rightarrow> Inl e
      | Inr outcome \<Rightarrow>
          (case analyze_loop fit fetch inds clk tfs of
             Inl e \<Rightarrow> Inl e
           | Inr rest \<Rightarrow> Inr (outcome # rest)))"

record pair_result =
  total_score :: real
  is_solana :: bool
  outcomes :: "timeframe_outcome list"

definition analyze_pair ::
    "(real list \<Rightarrow> error + real) \<Rightarrow> (string \<Rightarrow> error + candle list) \<Rightarrow> (string \<Rightarrow> ind_frame option) \<Rightarrow> (string \<Rightarrow> pclock) \<Rightarrow>
     bool \<Rightarrow> string list \<Rightarrow> error + pair_result" where
  "analyze_pair fit fetch inds clk is_sol timeframes =
     (case analyze_loop fit fetch inds clk timeframes of
        Inl e \<Rightarrow> Inl e
      | Inr outs \<Rightarrow>
          Inr \<lparr>total_score = aggregate_score outs is_sol, is_solana = is_sol, outcomes = outs\<rparr>)"

section \<open>Notions of the specification\<close>

text \<open>
  What a forced refresh is expected to produce, written without the cache file: the
  upstream response from the history horizon onwards, sorted, resampled when the timeframe
  has a rule.
\<close>

definition refreshed ::
    "(int \<Rightarrow> int option \<Rightarrow> error + candle list) \<Rightarrow> (string \<Rightarrow> timeframe_config option) \<Rightarrow>
     string \<Rightarrow> clock \<Rightarrow> error + (candle list \<times> cache_file option)" where
  "refreshed get_ohlc timeframes tf clk =
     (case timeframes tf of
        None \<Rightarrow> Inl KeyError
      | Some cfg \<Rightarrow>
          (case get_ohlc (interval_minutes cfg) (kraken_ts (history_days cfg) (now_since clk)) of
             Inl e \<Rightarrow> Inl e
           | Inr raw \<Rightarrow>
               (let out = (case resample_rule cfg of
                             None \<Rightarrow> sort_key time raw
                           | Some r \<Rightarrow> resample_ohlc (sort_key time raw) r)
                in Inr (out, Some \<lparr>mtime = now_write clk, content = out\<rparr>))))"

text \<open>
  The words of the daily trend rule: the number of non-null points of a trend average,
  and "the average has strictly decreased over a lag": it has more points than the lag,
  and its latest point is below the point \<open>lag\<close> periods before it.
\<close>

definition points :: "ind_frame \<Rightarrow> string \<Rightarrow> nat" where
  "points f col = length (dropna_rows f col)"

definition decreased_over :: "ind_frame \<Rightarrow> string \<Rightarrow> nat \<Rightarrow> bool" where
  "decreased_over f col lag =
     (let vs = col_values (dropna_rows f col) col
      in lag < length vs \<and> last vs < vs ! (length vs - (lag + 1)))"

section \<open>Sample inputs\<close>

definition row_a :: candle where
  "row_a = \<lparr>time = 1704067200, opn = 1, high = 2, low = 1, close = 2, vwap = 3/2,
            volume = 10, count = 4\<rparr>"

definition row_b :: candle where
  "row_b = \<lparr>time = 1704153600, opn = 2, high = 3, low = 2, close = 3, vwap = 5/2,
            volume = 7, count = 3\<rparr>"

definition row_a_new :: candle where
  "row_a_new = \<lparr>time = 1704067200, opn = 1, high = 4, low = 1, close = 3, vwap = 2,
               volume = 25, count = 9\<rparr>"

definition jan_15 :: candle where
  "jan_15 = \<lparr>time = 1705276800, opn = 1, high = 2, low = 1, close = 2, vwap = 3/2,
             volume = 1, count = 4\<rparr>"

definition jan_once :: candle where
  "jan_once = \<lparr>time = 1706659200, opn = 1, high = 2, low = 1, close = 2, vwap = 3/2,
               volume = 1, count = 4\<rparr>"

definition jan_twice :: candle where
  "jan_twice = \<lparr>time = 1706659200, opn = 1, high = 2, low = 1, close = 2, vwap = 3/2,
                volume = 2, count = 8\<rparr>"

definition flat_row :: candle where
  "flat_row = \<lparr>time = 1704067200, opn = 1, high = 1, low = 1, close = 1, vwap = 1,
               volume = 0, count = 0\<rparr>"

definition month_90 :: candle where
  "month_90 = \<lparr>time = 1706659200, opn = 80, high = 90, low = 70, close = 85, vwap = 82,
               volume = 1000, count = 300\<rparr>"

definition month_100 :: candle where
  "month_100 = \<lparr>time = 1709164800, opn = 85, high = 100, low = 80, close = 95, vwap = 90,
                volume = 1200, count = 320\<rparr>"

text \<open>A clock long after every sample cache file was written.\<close>

definition stale :: clock where
  "stale = \<lparr>now_fresh = 1800000000000000, now_since = 1800000000000000,
            now_write = 1800000000000000\<rparr>"

definition daily_cfg :: timeframe_config where
  "daily_cfg = \<lparr>interval_minutes = 1440, history_days = None, cache_ttl_hours = 6,
                resample_rule = None\<rparr>"

definition ema_row :: "int \<Rightarrow> string \<Rightarrow> real \<Rightarrow> ind_row" where
  "ema_row t col v = \<lparr>row_time = t, row_val = (\<lambda>c. if c = col then Some v else None)\<rparr>"

text \<open>Thirteen months of a falling 12-period average.\<close>

definition ema12_falling :: ind_frame where
  "ema12_falling =
     \<lparr>columns = [''time'', ''close'', ''ema_5'', ''ema_12''],
      rows = replicate 12 (ema_row 0 ''ema_12'' 2) @ [ema_row 0 ''ema_12'' 1]\<rparr>"

text \<open>A candle whose prices all equal \<open>h\<close>, and two zigzag series.\<close>

definition bar :: "int \<Rightarrow> real \<Rightarrow> candle" where
  "bar t h = \<lparr>time = t, opn = h, high = h, low = h, close = h, vwap = h, volume = 1, count = 1\<rparr>"



text \<open>
  Indicator frames of 200 and of 201 rows: the 50-period average falls at the last row,
  the 200-period average rises there.
\<close>

definition trend_row :: "real \<Rightarrow> real \<Rightarrow> ind_row" where
  "trend_row a b =
     \<lparr>row_time = 0,
      row_val = (\<lambda>c. if c = ''ema_50'' then Some a else if c = ''ema_200'' then Some b else None)\<rparr>"

definition trend_200 :: ind_frame where
  "trend_200 = \<lparr>columns = [''time'', ''close'', ''ema_50'', ''ema_200''],
                rows = replicate 199 (trend_row 2 1) @ [trend_row 1 3]\<rparr>"

definition trend_201 :: ind_frame where
  "trend_201 = \<lparr>columns = [''time'', ''close'', ''ema_50'', ''ema_200''],
                rows = replicate 200 (trend_row 2 1) @ [trend_row 1 3]\<rparr>"

text \<open>
  Two daily candles, the older one in the baseline part and the newer one in the recent
  part of the 30-day window of the clock \<open>noon\<close>; the recent high is the lower one.
\<close>

definition daily_pair :: "candle list" where
  "daily_pair = [bar 1798848000 10, bar 1799712000 5]"

definition noon :: pclock where
  "noon = \<lparr>now_window = 1800000000000000, now_recent = 1800000000000000\<rparr>"

text \<open>
  A pair's cached frames and indicator frames, a clock long after \<open>noon\<close>, and
  clock readings that differ from \<open>noon\<close> only outside the daily call.
\<close>

definition later :: pclock where
  "later = \<lparr>now_window = 1900000000000000, now_recent = 1900000000000000\<rparr>"

definition cached_frames :: "string \<Rightarrow> error + candle list" where
  "cached_frames tf = (if tf = ''monthly'' then Inr [month_90, month_100] else Inr daily_pair)"

definition cached_inds :: "string \<Rightarrow> ind_frame option" where
  "cached_inds tf = (if tf = ''monthly'' then Some ema12_falling else Some trend_200)"

definition mixed_clock :: "string \<Rightarrow> pclock" where
  "mixed_clock tf = (if tf = ''daily'' then noon else later)"

section \<open>Properties of the OHLC cache\<close>

lemma fetch_refresh: "fetch_ohlc g tfs tf clk path True = refreshed g tfs tf clk"
  by (simp add: fetch_ohlc_def refreshed_def base_frame_def since_cursor_def Let_def
      split: option.splits sum.splits)

text \<open>
  C10. With \<open>refresh = True\<close> the cache file does not influence \<open>fetch_ohlc\<close>: the call
  equals \<open>refreshed\<close>, which does not take the cache file; two calls that differ only in
  the cache file are equal; and for a timeframe without a resample rule the returned and
  persisted frame holds exactly the rows of the upstream response, sorted by time, so
  cached rows that the response lacks are gone.
\<close>

theorem refresh_ignores_cache:
  "fetch_ohlc g tfs tf clk path True = refreshed g tfs tf clk
   \<and> fetch_ohlc g tfs tf clk path True = fetch_ohlc g tfs tf clk path' True
   \<and> (\<forall>cfg raw. tfs tf = Some cfg \<and> resample_rule cfg = None
          \<and> g (interval_minutes cfg) (kraken_ts (history_days cfg) (now_since clk)) = Inr raw
        \<longrightarrow> (\<exists>out. fetch_ohlc g tfs tf clk path True
                       = Inr (out, Some \<lparr>mtime = now_write clk, content = out\<rparr>)
                   \<and> set out = set raw \<and> sorted (map time out)))"
proof (intro conjI allI impI)
  show "fetch_ohlc g tfs tf clk path True = refreshed g tfs tf clk"
    by (rule fetch_refresh)
  show "fetch_ohlc g tfs tf clk path True = fetch_ohlc g tfs tf clk path' True"
    by (simp only: fetch_refresh)
next
  fix cfg raw
  assume "tfs tf = Some cfg \<and> resample_rule cfg = None
          \<and> g (interval_minutes cfg) (kraken_ts (history_days cfg) (now_since clk)) = Inr raw"
  then have "fetch_ohlc g tfs tf clk path True
       = Inr (sort_key time raw, Some \<lparr>mtime = now_write clk, content = sort_key time raw\<rparr>)"
    by (simp add: fetch_refresh refreshed_def Let_def)
  then show "\<exists>out. fetch_ohlc g tfs tf clk path True
                       = Inr (out, Some \<lparr>mtime = now_write clk, content = out\<rparr>)
                   \<and> set out = set raw \<and> sorted (map time out)"
    by (simp add: sorted_sort_key)
qed

theorem refresh_ignores_cache_witness:
  "fetch_ohlc (\<lambda>i s. Inr [row_b]) TIMEFRAMES ''daily''
      \<lparr>now_fresh = 0, now_since = 0, now_write = 9\<rparr> (Some \<lparr>mtime = 0, content = [row_a]\<rparr>) True
    = Inr ([row_b], Some \<lparr>mtime = 9, content = [row_b]\<rparr>)
   \<and> fetch_ohlc (\<lambda>i s. Inr [row_b]) TIMEFRAMES ''daily''
      \<lparr>now_fresh = 0, now_since = 0, now_write = 9\<rparr> (Some \<lparr>mtime = 0, content = [row_a]\<rparr>) True
    = fetch_ohlc (\<lambda>i s. Inr [row_b]) TIMEFRAMES ''daily''
      \<lparr>now_fresh = 0, now_since = 0, now_write = 9\<rparr> None True
   \<and> row_a \<notin> set [row_b]"
  using refresh_ignores_cache [of "\<lambda>i s. Inr [row_b]" TIMEFRAMES "''daily''"
      "\<lparr>now_fresh = 0, now_since = 0, now_write = 9\<rparr>" "Some \<lparr>mtime = 0, content = [row_a]\<rparr>" None]
    refresh_ignores_cache [of "\<lambda>i s. Inr [row_b]" TIMEFRAMES "''daily''"
      "\<lparr>now_fresh = 0, now_since = 0, now_write = 9\<rparr>" None None]
  by (simp add: refreshed_def TIMEFRAMES_def row_a_def row_b_def Let_def kraken_ts_def)

subsection \<open>Deduplication\<close>

lemma set_drop_duplicates: "set (drop_duplicates xs) \<subseteq> set xs"
  by (induction xs rule: drop_duplicates.induct) auto

lemma times_drop_duplicates: "time ` set (drop_duplicates xs) = time ` set xs"
  by (induction xs rule: drop_duplicates.induct) auto

lemma distinct_drop_duplicates: "distinct (map time (drop_duplicates xs))"
proof (induction xs rule: drop_duplicates.induct)
  case 1
  show ?case by simp
next
  case (2 c cs)
  have "time c \<notin> time ` set (drop_duplicates (filter (\<lambda>d. time d \<noteq> time c) cs))"
    unfolding times_drop_duplicates by auto
  with 2 show ?case by simp
qed

lemma drop_duplicates_append_old:
  "r \<in> set (drop_duplicates (old @ new)) \<Longrightarrow> time r \<in> time ` set old \<Longrightarrow> r \<in> set (drop_duplicates old)"
proof (induction old arbitrary: new rule: drop_duplicates.induct)
  case 1
  then show ?case by simp
next
  case (2 c cs)
  show ?case
  proof (cases "r = c")
    case True
    then show ?thesis by simp
  next
    case False
    with 2(2) have in_rest: "r \<in> set (drop_duplicates (filter (\<lambda>d. time d \<noteq> time c) cs @ filter (\<lambda>d. time d \<noteq> time c) new))"
      by simp
    then have "r \<in> set (filter (\<lambda>d. time d \<noteq> time c) cs @ filter (\<lambda>d. time d \<noteq> time c) new)"
      using set_drop_duplicates by blast
    then have ne: "time r \<noteq> time c" by auto
    with 2(3) have "time r \<in> time ` set (filter (\<lambda>d. time d \<noteq> time c) cs)" by auto
    from 2(1)[OF in_rest this] show ?thesis by simp
  qed
qed

lemma drop_duplicates_append_keeps: "set (drop_duplicates old) \<subseteq> set (drop_duplicates (old @ new))"
proof (induction old arbitrary: new rule: drop_duplicates.induct)
  case 1
  then show ?case by simp
next
  case (2 c cs)
  have "set (drop_duplicates (filter (\<lambda>d. time d \<noteq> time c) cs))
        \<subseteq> set (drop_duplicates (filter (\<lambda>d. time d \<noteq> time c) cs @ filter (\<lambda>d. time d \<noteq> time c) new))"
    by (rule 2)
  then show ?case by auto
qed

lemma filter_other_time: "t \<notin> time ` set cs \<Longrightarrow> filter (\<lambda>d. time d \<noteq> t) cs = cs"
  by (induction cs) auto

lemma drop_duplicates_id: "distinct (map time xs) \<Longrightarrow> drop_duplicates xs = xs"
proof (induction xs rule: drop_duplicates.induct)
  case 1
  show ?case by simp
next
  case (2 c cs)
  then have "filter (\<lambda>d. time d \<noteq> time c) cs = cs"
    by (simp add: filter_other_time)
  with 2 show ?case by simp
qed

lemma drop_duplicates_absorb:
  "distinct (map time xs) \<Longrightarrow> time ` set ys \<subseteq> time ` set xs \<Longrightarrow> drop_duplicates (xs @ ys) = xs"
proof (induction xs arbitrary: ys rule: drop_duplicates.induct)
  case 1
  then show ?case by simp
next
  case (2 c cs)
  let ?P = "\<lambda>d. time d \<noteq> time c"
  from 2(2) have cs: "filter ?P cs = cs" by (simp add: filter_other_time)
  from 2(3) have "time ` set (filter ?P ys) \<subseteq> time ` set cs" by auto
  with 2(1)[of "filter ?P ys"] 2(2) cs have "drop_duplicates (cs @ filter ?P ys) = cs" by simp
  with cs show ?case by simp
qed

lemma distinct_times_sort_key:
  "distinct (map time xs) \<Longrightarrow> distinct (map time (sort_key time xs))"
  by (simp add: distinct_map)

text \<open>
  C1, as the code has it. On the path that merges (no forced refresh, a cache file that is
  not fresh and holds rows), the stored frame is the cached rows followed by the sorted
  upstream rows, deduplicated by time and sorted by time, then resampled when the
  timeframe has a rule. The merged frame is ascending with distinct times, its times are
  those of the cache and of the response, and on a collision the cached row stays: the
  first cached row of every time is in it, a merged row whose time the cache has is that
  cached row, and every other merged row comes from the response.
\<close>

theorem merge_first_wins:
  assumes cfg: "tfs tf = Some cfg"
    and stale: "\<not> is_cache_fresh (Some f) (cache_ttl cfg) (now_fresh clk)"
    and old: "content f \<noteq> []"
    and up: "g (interval_minutes cfg) (since_cursor cfg (now_since clk) (Some (content f))) = Inr new"
  shows "\<exists>m out. fetch_ohlc g tfs tf clk (Some f) False
                    = Inr (out, Some \<lparr>mtime = now_write clk, content = out\<rparr>)
           \<and> out = (case resample_rule cfg of None \<Rightarrow> m | Some r \<Rightarrow> resample_ohlc m r)
           \<and> m = sort_key time (drop_duplicates (content f @ sort_key time new))
           \<and> sorted (map time m) \<and> distinct (map time m)
           \<and> time ` set m = time ` set (content f) \<union> time ` set new
           \<and> set (drop_duplicates (content f)) \<subseteq> set m
           \<and> (\<forall>r\<in>set m. time r \<in> time ` set (content f) \<longrightarrow> r \<in> set (drop_duplicates (content f)))
           \<and> (\<forall>r\<in>set m. time r \<notin> time ` set (content f) \<longrightarrow> r \<in> set new)"
proof -
  define m where "m = sort_key time (drop_duplicates (content f @ sort_key time new))"
  define out where "out = (case resample_rule cfg of None \<Rightarrow> m | Some r \<Rightarrow> resample_ohlc m r)"
  have fetch: "fetch_ohlc g tfs tf clk (Some f) False
                 = Inr (out, Some \<lparr>mtime = now_write clk, content = out\<rparr>)"
    using cfg stale old up
    by (simp add: fetch_ohlc_def base_frame_def Let_def m_def out_def split: option.splits)
  have srt: "sorted (map time m)"
    by (simp add: m_def sorted_sort_key)
  have dst: "distinct (map time m)"
    by (simp add: m_def distinct_times_sort_key distinct_drop_duplicates)
  have setm: "set m = set (drop_duplicates (content f @ sort_key time new))"
    by (simp add: m_def)
  have tms: "time ` set m = time ` set (content f) \<union> time ` set new"
    by (simp add: setm times_drop_duplicates image_Un)
  have keep: "set (drop_duplicates (content f)) \<subseteq> set m"
    unfolding setm by (rule drop_duplicates_append_keeps)
  have oldwins: "\<forall>r\<in>set m. time r \<in> time ` set (content f) \<longrightarrow> r \<in> set (drop_duplicates (content f))"
    unfolding setm using drop_duplicates_append_old by blast
  have newrows: "\<forall>r\<in>set m. time r \<notin> time ` set (content f) \<longrightarrow> r \<in> set new"
  proof (intro ballI impI)
    fix r assume r: "r \<in> set m" and nt: "time r \<notin> time ` set (content f)"
    from r have "r \<in> set (content f @ sort_key time new)"
      unfolding setm using set_drop_duplicates by blast
    with nt show "r \<in> set new" by auto
  qed
  from fetch srt dst tms keep oldwins newrows show ?thesis
    unfolding out_def m_def by blast
qed

theorem merge_first_wins_witness:
  "TIMEFRAMES ''daily'' = Some daily_cfg
   \<and> \<not> is_cache_fresh (Some \<lparr>mtime = 0, content = [row_a]\<rparr>) (cache_ttl daily_cfg) (now_fresh stale)
   \<and> content \<lparr>mtime = 0, content = [row_a]\<rparr> \<noteq> []
   \<and> fetch_ohlc (\<lambda>i since. Inr [row_b, row_a_new]) TIMEFRAMES ''daily'' stale
        (Some \<lparr>mtime = 0, content = [row_a]\<rparr>) False
      = Inr ([row_a, row_b], Some \<lparr>mtime = now_write stale, content = [row_a, row_b]\<rparr>)"
proof -
  have cfg: "TIMEFRAMES ''daily'' = Some daily_cfg"
    by (simp add: TIMEFRAMES_def daily_cfg_def)
  have st: "\<not> is_cache_fresh (Some \<lparr>mtime = 0, content = [row_a]\<rparr>) (cache_ttl daily_cfg) (now_fresh stale)"
    by (simp add: is_cache_fresh_def cache_ttl_def daily_cfg_def stale_def)
  have old: "content \<lparr>mtime = 0, content = [row_a]\<rparr> \<noteq> []" by simp
  have ev: "sort_key time (drop_duplicates ([row_a] @ sort_key time [row_b, row_a_new])) = [row_a, row_b]"
    by (simp add: row_a_def row_b_def row_a_new_def)
  from merge_first_wins [where g = "\<lambda>i since. Inr [row_b, row_a_new]" and new = "[row_b, row_a_new]"
      and tfs = TIMEFRAMES and tf = "''daily''" and cfg = daily_cfg and clk = stale
      and f = "\<lparr>mtime = 0, content = [row_a]\<rparr>", OF cfg st old]
  obtain m out where
    f: "fetch_ohlc (\<lambda>i since. Inr [row_b, row_a_new]) TIMEFRAMES ''daily'' stale
          (Some \<lparr>mtime = 0, content = [row_a]\<rparr>) False
        = Inr (out, Some \<lparr>mtime = now_write stale, content = out\<rparr>)"
    and o: "out = (case resample_rule daily_cfg of None \<Rightarrow> m | Some r \<Rightarrow> resample_ohlc m r)"
    and m: "m = sort_key time (drop_duplicates (content \<lparr>mtime = 0, content = [row_a]\<rparr>
                                 @ sort_key time [row_b, row_a_new]))"
    by blast
  from o have "out = m" by (simp add: daily_cfg_def)
  with m ev have "out = [row_a, row_b]" by simp
  with f have "fetch_ohlc (\<lambda>i since. Inr [row_b, row_a_new]) TIMEFRAMES ''daily'' stale
        (Some \<lparr>mtime = 0, content = [row_a]\<rparr>) False
      = Inr ([row_a, row_b], Some \<lparr>mtime = now_write stale, content = [row_a, row_b]\<rparr>)"
    by simp
  with cfg st old show ?thesis by blast
qed

text \<open>
  C1 as stated fails: the cache holds one row, the response holds a row of the same time
  with other values, and the stored frame is the cached row; the new row is not in it.
\<close>

theorem merge_keeps_cached_row:
  "fetch_ohlc (\<lambda>i since. Inr [row_a_new]) TIMEFRAMES ''daily'' stale
      (Some \<lparr>mtime = 0, content = [row_a]\<rparr>) False
     = Inr ([row_a], Some \<lparr>mtime = now_write stale, content = [row_a]\<rparr>)
   \<and> time row_a_new = time row_a \<and> row_a_new \<noteq> row_a \<and> row_a_new \<notin> set [row_a]"
  by (simp add: fetch_ohlc_def TIMEFRAMES_def is_cache_fresh_def cache_ttl_def stale_def
      base_frame_def row_a_def row_a_new_def Let_def)

subsection \<open>The since cursor\<close>

text \<open>
  The cursor in general: the history bound alone without cached rows; the larger of the
  history bound and the latest cached time minus one interval when both exist; and the
  latest cached time itself, with nothing subtracted, when no history horizon is
  configured.
\<close>

lemma since_cursor_no_horizon:
  assumes "history_days cfg = None" and "b \<noteq> []" and "0 \<le> interval_minutes cfg"
  shows "since_cursor cfg now (Some b) = Some (Max (set (map time b)))"
proof -
  have m: "max x (x - interval_minutes cfg * 60) = x" for x :: int
    using assms(3) by simp
  from assms(1,2) show ?thesis
    by (simp add: since_cursor_def kraken_ts_def Let_def m)
qed

lemma since_cursor_horizon:
  assumes "kraken_ts (history_days cfg) now = Some h" and "h \<noteq> 0" and "b \<noteq> []"
  shows "since_cursor cfg now (Some b)
           = Some (max h (Max (set (map time b)) - interval_minutes cfg * 60))"
  using assms by (simp add: since_cursor_def Let_def)

lemma since_cursor_no_cache:
  "since_cursor cfg now None = kraken_ts (history_days cfg) now"
  "since_cursor cfg now (Some []) = kraken_ts (history_days cfg) now"
  by (simp_all add: since_cursor_def Let_def)

text \<open>
  C3 at a cache of one daily candle at 2024-01-15 and no history horizon: the cursor sent
  upstream is the candle's time itself, 1705276800, not that time minus one interval,
  1705190400. The third conjunct runs \<open>fetch_ohlc\<close> against an upstream that answers
  only when asked for 1705276800.
\<close>

theorem since_without_horizon:
  "map_option (\<lambda>cfg. since_cursor cfg (now_since stale)
                       (base_frame (Some \<lparr>mtime = 0, content = [jan_15]\<rparr>) False))
     (TIMEFRAMES ''daily'') = Some (Some 1705276800)
   \<and> map_option (\<lambda>cfg. Max (set (map time [jan_15])) - interval_minutes cfg * 60)
       (TIMEFRAMES ''daily'') = Some 1705190400
   \<and> fetch_ohlc (\<lambda>i since. if since = Some 1705276800 then Inr [] else Inl UpstreamError)
        TIMEFRAMES ''daily'' stale (Some \<lparr>mtime = 0, content = [jan_15]\<rparr>) False
       = Inr ([jan_15], Some \<lparr>mtime = now_write stale, content = [jan_15]\<rparr>)"
  by (simp add: TIMEFRAMES_def since_cursor_def base_frame_def kraken_ts_def jan_15_def
      fetch_ohlc_def is_cache_fresh_def cache_ttl_def stale_def Let_def)

subsection \<open>Fetching twice\<close>

lemma month_end_jan_15: "month_end 1705276800 = 1706659200"
  by code_simp

lemma month_end_jan_31: "month_end 1706659200 = 1706659200"
  by code_simp

lemma first_monthly_fetch:
  "fetch_ohlc (\<lambda>i since. Inr [jan_15]) TIMEFRAMES ''monthly''
      \<lparr>now_fresh = 0, now_since = 0, now_write = 0\<rparr> None False
    = Inr ([jan_once], Some \<lparr>mtime = 0, content = [jan_once]\<rparr>)"
  by (simp add: fetch_ohlc_def TIMEFRAMES_def is_cache_fresh_def base_frame_def since_cursor_def
      kraken_ts_def resample_ohlc_def agg_def jan_15_def jan_once_def month_end_jan_15 Let_def
      del: set_filter)

lemma second_monthly_fetch:
  "fetch_ohlc (\<lambda>i since. Inr [jan_15]) TIMEFRAMES ''monthly'' stale
      (Some \<lparr>mtime = 0, content = [jan_once]\<rparr>) False
    = Inr ([jan_twice], Some \<lparr>mtime = now_write stale, content = [jan_twice]\<rparr>)"
  by (simp add: fetch_ohlc_def TIMEFRAMES_def is_cache_fresh_def base_frame_def since_cursor_def
      kraken_ts_def resample_ohlc_def agg_def jan_15_def jan_once_def jan_twice_def stale_def
      cache_ttl_def month_end_jan_15 month_end_jan_31 Let_def del: set_filter)

text \<open>
  C2 at the monthly timeframe: the upstream answers both calls with the same single daily
  candle of 2024-01-15 (volume 1). The first call, without a cache file, stores the month
  row of January with volume 1. The second call merges that month row with the daily
  candle and resamples again: the stored month row now has volume 2 and count 8.
\<close>

theorem monthly_refetch_changes_series:
  "fetch_ohlc (\<lambda>i since. Inr [jan_15]) TIMEFRAMES ''monthly''
      \<lparr>now_fresh = 0, now_since = 0, now_write = 0\<rparr> None False
    = Inr ([jan_once], Some \<lparr>mtime = 0, content = [jan_once]\<rparr>)
   \<and> fetch_ohlc (\<lambda>i since. Inr [jan_15]) TIMEFRAMES ''monthly'' stale
      (Some \<lparr>mtime = 0, content = [jan_once]\<rparr>) False
    = Inr ([jan_twice], Some \<lparr>mtime = now_write stale, content = [jan_twice]\<rparr>)
   \<and> [jan_once] \<noteq> [jan_twice]
   \<and> volume jan_twice = 2 * volume jan_15"
  using first_monthly_fetch second_monthly_fetch
  by (simp add: jan_once_def jan_twice_def jan_15_def)

text \<open>
  Without a resample rule the second fetch of the same response stores the same frame,
  provided the first call had cached rows to merge with or the response has no two rows
  of the same time.
\<close>

lemma merged_frame_shape:
  assumes "s1 = (case base of None \<Rightarrow> sort_key time U
                 | Some b \<Rightarrow> if b = [] then sort_key time U
                            else sort_key time (drop_duplicates (b @ sort_key time U)))"
    and "distinct (map time U) \<or> (\<exists>b. base = Some b \<and> b \<noteq> [])"
  shows "sorted (map time s1)" and "distinct (map time s1)" and "time ` set U \<subseteq> time ` set s1"
proof -
  show "sorted (map time s1)"
    using assms(1) by (auto simp: sorted_sort_key split: option.splits)
  show "distinct (map time s1)"
    using assms
    by (auto simp: distinct_times_sort_key distinct_drop_duplicates split: option.splits)
  show "time ` set U \<subseteq> time ` set s1"
    using assms(1) by (auto simp: times_drop_duplicates split: option.splits)
qed

lemma remerge_same_response:
  assumes "sorted (map time s1)" and "distinct (map time s1)" and "time ` set U \<subseteq> time ` set s1"
  shows "(if s1 = [] then sort_key time U
          else sort_key time (drop_duplicates (s1 @ sort_key time U))) = s1"
proof (cases "s1 = []")
  case True
  with assms(3) have "U = []" by auto
  with True show ?thesis by simp
next
  case False
  from assms(3) have "time ` set (sort_key time U) \<subseteq> time ` set s1" by simp
  from drop_duplicates_absorb [OF assms(2) this]
  have "drop_duplicates (s1 @ sort_key time U) = s1" .
  with False assms(1) show ?thesis by (simp add: sort_key_id_if_sorted)
qed

lemma refetch_without_rule:
  assumes cfg: "tfs tf = Some cfg" and rule: "resample_rule cfg = None"
    and stale: "\<not> is_cache_fresh path (cache_ttl cfg) (now_fresh clk1)"
    and ok: "distinct (map time U) \<or> (\<exists>f. path = Some f \<and> content f \<noteq> [])"
    and first: "fetch_ohlc (\<lambda>i since. Inr U) tfs tf clk1 path False = Inr (s1, c1)"
    and second: "fetch_ohlc (\<lambda>i since. Inr U) tfs tf clk2 c1 False = Inr (s2, c2)"
  shows "s2 = s1 \<and> map_option content c2 = Some s1"
proof -
  define base where "base = base_frame path False"
  from first cfg rule stale
  have s1: "s1 = (case base of None \<Rightarrow> sort_key time U
                 | Some b \<Rightarrow> if b = [] then sort_key time U
                            else sort_key time (drop_duplicates (b @ sort_key time U)))"
    and c1: "c1 = Some \<lparr>mtime = now_write clk1, content = s1\<rparr>"
    by (auto simp: fetch_ohlc_def Let_def base_def split: option.splits)
  from ok have ok': "distinct (map time U) \<or> (\<exists>b. base = Some b \<and> b \<noteq> [])"
    by (auto simp: base_def base_frame_def)
  note shape = merged_frame_shape [OF s1 ok']
  show ?thesis
  proof (cases "is_cache_fresh c1 (cache_ttl cfg) (now_fresh clk2)")
    case True
    with second cfg c1 show ?thesis
      by (auto simp: fetch_ohlc_def read_parquet_def)
  next
    case False
    with second cfg rule c1
    have "s2 = (if s1 = [] then sort_key time U
                else sort_key time (drop_duplicates (s1 @ sort_key time U)))"
      and "c2 = Some \<lparr>mtime = now_write clk2, content = s2\<rparr>"
      by (auto simp: fetch_ohlc_def Let_def base_frame_def)
    with remerge_same_response [OF shape] show ?thesis by simp
  qed
qed

section \<open>Properties of the detectors and the scorer\<close>

text \<open>
  C9. On the frame without rows both detectors return a failed result with the reason
  \<open>no data\<close> and raise nothing, and \<open>compute_volume_profile\<close> returns the profile
  whose \<open>poc\<close>, \<open>vah\<close> and \<open>val\<close> are NaN and whose histogram is empty; it returns
  the same profile for every frame whose volumes sum to zero.
\<close>

theorem empty_series_fails:
  "detect_lower_highs_scored fit [] min_peaks ord = Inr (failed [] ''no data'')
   \<and> detect_descending_rules [] tf ind clk = Inr (failed [] ''no data'')
   \<and> \<not> passed (failed [] ''no data'')
   \<and> reason (failed [] ''no data'') = Some ''no data''
   \<and> compute_volume_profile [] bins target = Inr (nan_profile [] [])
   \<and> (sum_list (map volume df) = 0 \<longrightarrow> compute_volume_profile df bins target = Inr (nan_profile [] []))
   \<and> poc (nan_profile [] []) = None \<and> vah (nan_profile [] []) = None
   \<and> val (nan_profile [] []) = None \<and> histogram (nan_profile [] []) = []"
  by (simp add: detect_lower_highs_scored_def detect_descending_rules_def failed_def
      compute_volume_profile_def nan_profile_def)

theorem empty_series_fails_witness:
  "sum_list (map volume [flat_row, flat_row]) = 0
   \<and> compute_volume_profile [flat_row, flat_row] 30 0.7 = Inr (nan_profile [] [])
   \<and> detect_descending_rules [] ''daily'' None \<lparr>now_window = 0, now_recent = 0\<rparr>
       = Inr (failed [] ''no data'')"
  using empty_series_fails [where tf = "''daily''" and ind = None
      and clk = "\<lparr>now_window = 0, now_recent = 0\<rparr>" and bins = 30
      and df = "[flat_row, flat_row]" and target = "0.7"]
  by (simp add: flat_row_def)

lemma last_two:
  assumes "2 \<le> length df"
  shows "last (drop (length df - 2) df) = last df"
    and "drop (length df - 2) df ! (length (drop (length df - 2) df) - 2) = df ! (length df - 2)"
  using assms by (simp_all add: last_drop)

text \<open>
  C5. On the monthly timeframe, a frame of at least two rows whose last high is greater
  than the high before it is rejected with score 0, whatever the indicator frame is.
\<close>

theorem monthly_higher_high_fails:
  assumes "2 \<le> length df" and "high (last df) > high (df ! (length df - 2))"
  shows "\<exists>r. detect_descending_rules df ''monthly'' ind clk = Inr r \<and> \<not> passed r \<and> score r = 0"
proof -
  from assms(1) have ne: "df \<noteq> []" by auto
  from assms have "\<not> high (last (drop (length df - 2) df))
        \<le> high (drop (length df - 2) df ! (length (drop (length df - 2) df) - 2))"
    by (simp only: last_two[OF assms(1)])
  with ne assms(1) show ?thesis
    by (simp add: detect_descending_rules_def PAT2_MONTHS_LOOKBACK_def Let_def verdict_def)
qed

lemma ema12_falling_desc: "ema_desc (Some ema12_falling) ''ema_12'' 12 True 0 = (True, None)"
  by (simp add: ema_desc_def ema12_falling_def dropna_rows_def col_values_def ema_row_def
      List.map_filter_def nth_append Let_def)

theorem monthly_higher_high_fails_witness:
  "2 \<le> length [month_90, month_100]
   \<and> high (last [month_90, month_100]) > high ([month_90, month_100] ! (length [month_90, month_100] - 2))
   \<and> ema_desc (Some ema12_falling) ''ema_12'' 12 True 0 = (True, None)
   \<and> (\<exists>r. detect_descending_rules [month_90, month_100] ''monthly'' (Some ema12_falling)
              \<lparr>now_window = 0, now_recent = 0\<rparr> = Inr r \<and> \<not> passed r \<and> score r = 0)"
proof -
  have a: "2 \<le> length [month_90, month_100]" by simp
  have b: "high (last [month_90, month_100]) > high ([month_90, month_100] ! (length [month_90, month_100] - 2))"
    by (simp add: month_90_def month_100_def)
  show ?thesis
    using a b ema12_falling_desc monthly_higher_high_fails [OF a b, of "Some ema12_falling" "\<lparr>now_window = 0, now_recent = 0\<rparr>"]
    by blast
qed

text \<open>
  C8 at the frame without rows: \<open>poc_distance_score\<close> raises an \<open>IndexError\<close> for
  every profile, also for the all-NaN profile that \<open>compute_volume_profile\<close> returns
  for that frame, where the claim asks for 0; \<open>volume_decline_score\<close> returns 0 there.
  So \<open>score_timeframe\<close> raises, and \<open>analyze_pair\<close> raises for a pair whose fetched
  frame has no rows.
\<close>

theorem poc_distance_empty_raises:
  "poc_distance_score [] vp = Inl IndexError
   \<and> compute_volume_profile [] 30 0.7 = Inr (nan_profile [] [])
   \<and> poc (nan_profile [] []) = None
   \<and> score_timeframe tf [] pat vp = Inl IndexError
   \<and> volume_decline_score [] = 0
   \<and> analyze_timeframe fit (\<lambda>tf. Inr []) inds clk tf = Inl IndexError
   \<and> analyze_pair fit (\<lambda>tf. Inr []) inds clk is_sol (tf # tfs) = Inl IndexError"
proof -
  have a: "poc_distance_score [] vp = Inl IndexError" for vp
    by (simp add: poc_distance_score_def)
  have b: "compute_volume_profile [] 30 0.7 = Inr (nan_profile [] [])"
    by (simp add: compute_volume_profile_def)
  have c: "score_timeframe tf [] pat vp = Inl IndexError" for tf pat vp
    by (simp add: score_timeframe_def a)
  have d: "detect_pattern fit [] tf (inds tf) (clk tf) = Inr (failed [] ''no data'')"
    by (simp add: detect_pattern_def PATTERN_DETECTOR_VERSION_def detect_descending_rules_def)
  have e: "analyze_timeframe fit (\<lambda>tf. Inr []) inds clk tf = Inl IndexError"
    by (simp add: analyze_timeframe_def b c d)
  have f: "analyze_pair fit (\<lambda>tf. Inr []) inds clk is_sol (tf # tfs) = Inl IndexError"
    by (simp add: analyze_pair_def e)
  from a b c e f show ?thesis
    by (simp add: nan_profile_def volume_decline_score_def)
qed

subsection \<open>Variant A\<close>











subsection \<open>Variant B, daily trend check\<close>

lemma length_col_values: "length (col_values (dropna_rows f col) col) = length (dropna_rows f col)"
proof -
  have "length (List.map_filter (\<lambda>r. row_val r col) (filter (\<lambda>r. row_val r col \<noteq> None) rs))
        = length (filter (\<lambda>r. row_val r col \<noteq> None) rs)" for rs
    by (induction rs) (auto simp: List.map_filter_simps)
  then show ?thesis by (simp add: col_values_def dropna_rows_def)
qed

lemma ema_desc_strict:
  "col \<in> set (columns f) \<Longrightarrow> fst (ema_desc (Some f) col lag True 0) = decreased_over f col lag"
  by (simp add: ema_desc_def decreased_over_def Let_def)

lemma daily_ema_rule_present:
  assumes "''ema_50'' \<in> set (columns f)" and "''ema_200'' \<in> set (columns f)"
  shows "\<exists>why. daily_ema_rule (Some f)
           = Inr (decreased_over f ''ema_50'' 50
                    \<and> (200 < points f ''ema_200'' \<longrightarrow> decreased_over f ''ema_200'' 200), why)"
proof -
  have d50: "\<not> 50 < length (dropna_rows f ''ema_50'') \<Longrightarrow> \<not> decreased_over f ''ema_50'' 50"
    by (simp add: decreased_over_def Let_def length_col_values)
  show ?thesis
    using assms d50
    by (auto simp: daily_ema_rule_def dropna_def Let_def points_def ema_desc_strict)
qed

lemma trend_200_rule: "daily_ema_rule (Some trend_200) = Inr (True, None)"
  by (simp add: daily_ema_rule_def dropna_def dropna_rows_def ema_desc_def col_values_def
      List.map_filter_def trend_200_def trend_row_def nth_append Let_def)

lemma daily_passed_needs_trend:
  "detect_descending_rules df ''daily'' ind clk = Inr r \<Longrightarrow> passed r
   \<Longrightarrow> \<exists>why. daily_ema_rule ind = Inr (True, why)"
  by (auto simp: detect_descending_rules_def Let_def failed_def verdict_def
      split: if_splits sum.splits)

lemma daily_rule_true_columns:
  "daily_ema_rule ind = Inr (True, why)
   \<Longrightarrow> \<exists>f. ind = Some f \<and> ''ema_50'' \<in> set (columns f) \<and> ''ema_200'' \<in> set (columns f)"
  by (auto simp: daily_ema_rule_def dropna_def Let_def split: option.splits if_splits)

text \<open>
  C6, as the code has it. The daily trend check fails when the indicator frame is missing
  or has no \<open>ema_50\<close> column. When the frame has the columns \<open>ema_50\<close> and
  \<open>ema_200\<close>, the check passes exactly when \<open>ema_50\<close> has strictly decreased over a lag
  of 50 and, in the case that \<open>ema_200\<close> has more than 200 non-null points, \<open>ema_200\<close>
  has also strictly decreased over a lag of 200; with at most 200 points the \<open>ema_50\<close>
  check alone decides. Too few \<open>ema_50\<close> points fail the check. A daily result that is
  passed has passed this check.
\<close>

theorem daily_trend_check:
  "daily_ema_rule None = Inr (False, Some ''missing ema 50'')
   \<and> (''ema_50'' \<notin> set (columns f)
        \<longrightarrow> daily_ema_rule (Some f) = Inr (False, Some ''missing ema 50''))
   \<and> (''ema_50'' \<in> set (columns f) \<and> ''ema_200'' \<in> set (columns f)
        \<longrightarrow> (\<exists>why. daily_ema_rule (Some f)
               = Inr (decreased_over f ''ema_50'' 50
                        \<and> (200 < points f ''ema_200'' \<longrightarrow> decreased_over f ''ema_200'' 200),
                      why)))
   \<and> (detect_descending_rules df ''daily'' ind clk = Inr r \<and> passed r
        \<longrightarrow> (\<exists>g. ind = Some g \<and> decreased_over g ''ema_50'' 50
                 \<and> (200 < points g ''ema_200'' \<longrightarrow> decreased_over g ''ema_200'' 200)))"
proof (intro conjI impI)
  show "daily_ema_rule None = Inr (False, Some ''missing ema 50'')"
    by (simp add: daily_ema_rule_def)
  show "daily_ema_rule (Some f) = Inr (False, Some ''missing ema 50'')"
    if "''ema_50'' \<notin> set (columns f)"
    using that by (simp add: daily_ema_rule_def)
  show "\<exists>why. daily_ema_rule (Some f)
               = Inr (decreased_over f ''ema_50'' 50
                        \<and> (200 < points f ''ema_200'' \<longrightarrow> decreased_over f ''ema_200'' 200),
                      why)"
    if "''ema_50'' \<in> set (columns f) \<and> ''ema_200'' \<in> set (columns f)"
    using that daily_ema_rule_present by blast
  show "\<exists>g. ind = Some g \<and> decreased_over g ''ema_50'' 50
                 \<and> (200 < points g ''ema_200'' \<longrightarrow> decreased_over g ''ema_200'' 200)"
    if h: "detect_descending_rules df ''daily'' ind clk = Inr r \<and> passed r"
  proof -
    from h daily_passed_needs_trend obtain why where t: "daily_ema_rule ind = Inr (True, why)"
      by blast
    from daily_rule_true_columns [OF t] obtain g where g: "ind = Some g"
      and c50: "''ema_50'' \<in> set (columns g)" and c200: "''ema_200'' \<in> set (columns g)"
      by blast
    from daily_ema_rule_present [OF c50 c200] t g
    have "decreased_over g ''ema_50'' 50
          \<and> (200 < points g ''ema_200'' \<longrightarrow> decreased_over g ''ema_200'' 200)"
      by auto
    with g show ?thesis by blast
  qed
qed

lemma trend_200_points: "points trend_200 ''ema_200'' = 200"
  by (simp add: points_def dropna_rows_def trend_200_def trend_row_def)

lemma trend_200_rising: "\<not> decreased_over trend_200 ''ema_200'' 200"
  by (simp add: decreased_over_def length_col_values)
     (simp add: dropna_rows_def trend_200_def trend_row_def)

lemma daily_pair_passes:
  "detect_descending_rules daily_pair ''daily'' (Some trend_200) noon
     = Inr (verdict True (slope_of [10, 5]) daily_pair None ''recent high > prior window'')"
  by (simp add: detect_descending_rules_def trend_200_rule daily_pair_def noon_def bar_def
      days_us_def PAT2_DAILY_LOOKBACK_DAYS_def PAT2_DAILY_RECENT_DAYS_def max_high_def Let_def)

lemma trend_201_points: "points trend_201 ''ema_200'' = 201"
  by (simp add: points_def dropna_rows_def trend_201_def trend_row_def)

lemma trend_201_rising: "\<not> decreased_over trend_201 ''ema_200'' 200"
  by (simp add: decreased_over_def col_values_def List.map_filter_def dropna_rows_def
      trend_201_def trend_row_def nth_append Let_def)

theorem daily_trend_check_witness:
  "''ema_50'' \<in> set (columns trend_201) \<and> ''ema_200'' \<in> set (columns trend_201)
   \<and> 200 < points trend_201 ''ema_200''
   \<and> (\<exists>why. daily_ema_rule (Some trend_201) = Inr (False, why))
   \<and> ''ema_50'' \<notin> set (columns \<lparr>columns = [''time'', ''close''], rows = []\<rparr>)
   \<and> daily_ema_rule (Some \<lparr>columns = [''time'', ''close''], rows = []\<rparr>)
       = Inr (False, Some ''missing ema 50'')
   \<and> (\<exists>r. detect_descending_rules daily_pair ''daily'' (Some trend_200) noon = Inr r \<and> passed r)
   \<and> decreased_over trend_200 ''ema_50'' 50"
proof -
  have c: "''ema_50'' \<in> set (columns trend_201) \<and> ''ema_200'' \<in> set (columns trend_201)"
    by (simp add: trend_201_def)
  have n: "''ema_50'' \<notin> set (columns \<lparr>columns = [''time'', ''close''], rows = []\<rparr>)"
    by simp
  have p: "\<exists>r. detect_descending_rules daily_pair ''daily'' (Some trend_200) noon = Inr r \<and> passed r"
    using daily_pair_passes by (simp add: verdict_def)
  then obtain r where r: "detect_descending_rules daily_pair ''daily'' (Some trend_200) noon = Inr r \<and> passed r"
    by blast
  note t1 = daily_trend_check [where f = trend_201 and df = daily_pair and ind = "Some trend_200"
      and clk = noon and r = r]
  note t2 = daily_trend_check [where f = "\<lparr>columns = [''time'', ''close''], rows = []\<rparr>"
      and df = daily_pair and ind = "Some trend_200" and clk = noon and r = r]
  from t1 c trend_201_points trend_201_rising
  have a: "\<exists>why. daily_ema_rule (Some trend_201) = Inr (False, why)" by auto
  from t2 n have b: "daily_ema_rule (Some \<lparr>columns = [''time'', ''close''], rows = []\<rparr>)
       = Inr (False, Some ''missing ema 50'')" by blast
  from t1 r have d: "decreased_over trend_200 ''ema_50'' 50" by auto
  from c trend_201_points a n b p d show ?thesis by simp
qed

text \<open>
  C6 as stated fails at exactly 200 points: the frame has 200 non-null points of
  \<open>ema_200\<close>, which has not decreased (no value lies 200 periods back), and the daily
  check and the detector pass on the \<open>ema_50\<close> check alone.
\<close>

theorem trend_200_points_skip_long_check:
  "points trend_200 ''ema_200'' = 200
   \<and> \<not> decreased_over trend_200 ''ema_200'' 200
   \<and> daily_ema_rule (Some trend_200) = Inr (True, None)
   \<and> detect_descending_rules daily_pair ''daily'' (Some trend_200) noon
       = Inr (verdict True (slope_of [10, 5]) daily_pair None ''recent high > prior window'')
   \<and> passed (verdict True (slope_of [10, 5]) daily_pair None ''recent high > prior window'')"
  using trend_200_points trend_200_rising trend_200_rule daily_pair_passes
  by (simp add: verdict_def)

subsection \<open>The pipeline and the wall clock\<close>

lemma detect_rules_clock:
  "tf \<noteq> ''daily'' \<Longrightarrow> tf \<noteq> ''4h''
   \<Longrightarrow> detect_descending_rules df tf ind clk = detect_descending_rules df tf ind clk'"
  by (simp add: detect_descending_rules_def)

lemma detect_pattern_clock:
  "tf \<noteq> ''daily'' \<Longrightarrow> tf \<noteq> ''4h''
   \<Longrightarrow> detect_pattern fit df tf ind clk = detect_pattern fit df tf ind clk'"
  by (simp add: detect_pattern_def detect_rules_clock [of tf df ind clk clk'])

lemma analyze_timeframe_clock:
  assumes "tf = ''daily'' \<or> tf = ''4h'' \<longrightarrow> clk tf = clk' tf"
  shows "analyze_timeframe fit fetch inds clk tf = analyze_timeframe fit fetch inds clk' tf"
proof (cases "tf = ''daily'' \<or> tf = ''4h''")
  case True
  with assms have e: "clk tf = clk' tf" by blast
  show ?thesis unfolding analyze_timeframe_def e ..
next
  case False
  then have e: "detect_pattern fit df tf (inds tf) (clk tf) = detect_pattern fit df tf (inds tf) (clk' tf)" for df
    using detect_pattern_clock by blast
  show ?thesis unfolding analyze_timeframe_def e ..
qed

lemma analyze_loop_clock:
  "\<forall>tf\<in>set tfs. tf = ''daily'' \<or> tf = ''4h'' \<longrightarrow> clk tf = clk' tf
   \<Longrightarrow> analyze_loop fit fetch inds clk tfs = analyze_loop fit fetch inds clk' tfs"
proof (induction tfs)
  case Nil
  show ?case by simp
next
  case (Cons tf tfs)
  then have e: "analyze_timeframe fit fetch inds clk tf = analyze_timeframe fit fetch inds clk' tf"
    using analyze_timeframe_clock by simp
  from Cons have r: "analyze_loop fit fetch inds clk tfs = analyze_loop fit fetch inds clk' tfs"
    by simp
  show ?case unfolding analyze_loop.simps e r ..
qed

text \<open>
  C7, as the code has it. The result of the pipeline (variant-B detector per timeframe,
  volume profile, \<open>score_timeframe\<close>, \<open>aggregate_score\<close>) is a function of the cached
  frames, the cached indicator frames and the clock readings of the detector's calls for
  the timeframes \<open>daily\<close> and \<open>4h\<close>: two runs over the same caches whose readings
  agree for those two timeframes return the same result, whatever the clock shows during
  the other calls.
\<close>

theorem score_depends_on_clock_readings:
  assumes "\<forall>tf\<in>set tfs. tf = ''daily'' \<or> tf = ''4h'' \<longrightarrow> clk tf = clk' tf"
  shows "analyze_pair fit fetch inds clk is_sol tfs = analyze_pair fit fetch inds clk' is_sol tfs"
  using analyze_loop_clock [OF assms] by (simp add: analyze_pair_def)

theorem score_depends_on_clock_readings_witness:
  "list_all (\<lambda>tf. (tf \<noteq> ''daily'' \<and> tf \<noteq> ''4h'') \<or> mixed_clock tf = noon) [''monthly'', ''daily'']
   \<and> mixed_clock ''monthly'' \<noteq> noon
   \<and> analyze_pair exact_fit cached_frames cached_inds mixed_clock False [''monthly'', ''daily'']
       = analyze_pair exact_fit cached_frames cached_inds (\<lambda>tf. noon) False [''monthly'', ''daily'']"
proof -
  have h: "\<forall>tf\<in>set [''monthly'', ''daily''].
             tf = ''daily'' \<or> tf = ''4h'' \<longrightarrow> mixed_clock tf = (\<lambda>tf. noon) tf"
    by (simp add: mixed_clock_def)
  have n: "mixed_clock ''monthly'' \<noteq> noon"
    by (simp add: mixed_clock_def later_def noon_def)
  have l: "list_all (\<lambda>tf. (tf \<noteq> ''daily'' \<and> tf \<noteq> ''4h'') \<or> mixed_clock tf = noon)
             [''monthly'', ''daily'']"
    by (simp add: mixed_clock_def)
  have e: "analyze_pair exact_fit cached_frames cached_inds mixed_clock False [''monthly'', ''daily'']
       = analyze_pair exact_fit cached_frames cached_inds (\<lambda>tf. noon) False [''monthly'', ''daily'']"
    by (rule score_depends_on_clock_readings [OF h])
  from l n e show ?thesis by blast
qed

lemma volume_profile_total:
  "0 < bins \<Longrightarrow> \<exists>vp. compute_volume_profile df bins target = Inr vp"
  by (auto simp: compute_volume_profile_def np_histogram_def Let_def split: prod.splits)

lemma poc_distance_nonempty:
  "df \<noteq> [] \<Longrightarrow>
   poc_distance_score df vp =
     Inr (case poc vp of
            None \<Rightarrow> 0
          | Some p \<Rightarrow> if close (last df) = 0 then 0
                      else clip01 (1 - \<bar>close (last df) - p\<bar> / close (last df)))"
  by (simp add: poc_distance_score_def Let_def split: option.splits)

lemma analyze_timeframe_ok:
  assumes "fetch tf = Inr df" and "df \<noteq> []"
    and "detect_pattern fit df tf (inds tf) (clk tf) = Inr pat"
  shows "\<exists>vp p. analyze_timeframe fit fetch inds clk tf
           = Inr \<lparr>name = tf, pattern = pat, volume_profile = vp,
                  volume_decline = volume_decline_score df, poc_distance = p\<rparr>
         \<and> compute_volume_profile df 30 0.7 = Inr vp \<and> poc_distance_score df vp = Inr p"
proof -
  obtain vp where vp: "compute_volume_profile df 30 0.7 = Inr vp"
    using volume_profile_total [of 30 df "0.7"] by auto
  obtain p where p: "poc_distance_score df vp = Inr p"
    using poc_distance_nonempty [OF assms(2), of vp] by blast
  from assms vp p show ?thesis
    by (simp add: analyze_timeframe_def score_timeframe_def Let_def)
qed

lemma daily_pair_late:
  "detect_descending_rules daily_pair ''daily'' (Some trend_200) later
     = Inr (failed [] ''no recent data'')"
  by (simp add: detect_descending_rules_def daily_pair_def later_def bar_def
      days_us_def PAT2_DAILY_LOOKBACK_DAYS_def Let_def)

lemma analyze_daily_only:
  assumes "detect_descending_rules daily_pair ''daily'' (Some trend_200) c = Inr pat"
  shows "\<exists>vp p. compute_volume_profile daily_pair 30 0.7 = Inr vp
           \<and> poc_distance_score daily_pair vp = Inr p
           \<and> analyze_pair fit cached_frames cached_inds (\<lambda>tf. c) False [''daily'']
              = Inr \<lparr>total_score = 0.35 * (0.6 * score pat + 0.25 * volume_decline_score daily_pair
                                            + 0.15 * p),
                     is_solana = False,
                     outcomes = [\<lparr>name = ''daily'', pattern = pat, volume_profile = vp,
                                  volume_decline = volume_decline_score daily_pair,
                                  poc_distance = p\<rparr>]\<rparr>"
proof -
  have f: "cached_frames ''daily'' = Inr daily_pair" by (simp add: cached_frames_def)
  have ne: "daily_pair \<noteq> []" by (simp add: daily_pair_def)
  have d: "detect_pattern fit daily_pair ''daily'' (cached_inds ''daily'') ((\<lambda>tf. c) ''daily'') = Inr pat"
    using assms by (simp add: detect_pattern_def PATTERN_DETECTOR_VERSION_def cached_inds_def)
  from analyze_timeframe_ok [where fit = fit and fetch = cached_frames and tf = "''daily''" and df = daily_pair
      and inds = cached_inds and clk = "\<lambda>tf. c" and pat = pat, OF f ne d]
  obtain vp p where
    a: "analyze_timeframe fit cached_frames cached_inds (\<lambda>tf. c) ''daily''
           = Inr \<lparr>name = ''daily'', pattern = pat, volume_profile = vp,
                  volume_decline = volume_decline_score daily_pair, poc_distance = p\<rparr>"
    and vp: "compute_volume_profile daily_pair 30 0.7 = Inr vp"
    and p: "poc_distance_score daily_pair vp = Inr p"
    by blast
  have "analyze_pair fit cached_frames cached_inds (\<lambda>tf. c) False [''daily'']
              = Inr \<lparr>total_score = 0.35 * (0.6 * score pat + 0.25 * volume_decline_score daily_pair
                                            + 0.15 * p),
                     is_solana = False,
                     outcomes = [\<lparr>name = ''daily'', pattern = pat, volume_profile = vp,
                                  volume_decline = volume_decline_score daily_pair,
                                  poc_distance = p\<rparr>]\<rparr>"
    by (simp add: analyze_pair_def a aggregate_score_def TIMEFRAME_WEIGHTS_def tf_score_def)
  with vp p show ?thesis by blast
qed

text \<open>
  C7 as stated fails: over the same cached daily frame and the same cached indicators, a
  run at \<open>noon\<close> and a run at \<open>later\<close> both return a result, and the scores differ by
  0.21. At \<open>later\<close> no candle lies in the 30-day window that the detector cuts from
  the wall clock.
\<close>

theorem daily_score_changes_with_clock:
  "\<not> isl (analyze_pair exact_fit cached_frames cached_inds (\<lambda>tf. noon) False [''daily''])
   \<and> \<not> isl (analyze_pair exact_fit cached_frames cached_inds (\<lambda>tf. later) False [''daily''])
   \<and> total_score (projr (analyze_pair exact_fit cached_frames cached_inds (\<lambda>tf. noon) False [''daily'']))
       = total_score (projr (analyze_pair exact_fit cached_frames cached_inds (\<lambda>tf. later) False [''daily'']))
         + 21 / 100"
proof -
  from analyze_daily_only [OF daily_pair_passes, where fit = exact_fit] obtain vp p where
    vp: "compute_volume_profile daily_pair 30 0.7 = Inr vp"
    and p: "poc_distance_score daily_pair vp = Inr p"
    and a: "analyze_pair exact_fit cached_frames cached_inds (\<lambda>tf. noon) False [''daily'']
              = Inr \<lparr>total_score = 0.35 * (0.6 * score (verdict True (slope_of [10, 5]) daily_pair None
                                                     ''recent high > prior window'')
                                            + 0.25 * volume_decline_score daily_pair + 0.15 * p),
                     is_solana = False,
                     outcomes = [\<lparr>name = ''daily'',
                                  pattern = verdict True (slope_of [10, 5]) daily_pair None
                                              ''recent high > prior window'',
                                  volume_profile = vp,
                                  volume_decline = volume_decline_score daily_pair,
                                  poc_distance = p\<rparr>]\<rparr>"
    by blast
  from analyze_daily_only [OF daily_pair_late, where fit = exact_fit] obtain vp' p' where
    vp': "compute_volume_profile daily_pair 30 0.7 = Inr vp'"
    and p': "poc_distance_score daily_pair vp' = Inr p'"
    and b: "analyze_pair exact_fit cached_frames cached_inds (\<lambda>tf. later) False [''daily'']
              = Inr \<lparr>total_score = 0.35 * (0.6 * score (failed [] ''no recent data'')
                                            + 0.25 * volume_decline_score daily_pair + 0.15 * p'),
                     is_solana = False,
                     outcomes = [\<lparr>name = ''daily'', pattern = failed [] ''no recent data'',
                                  volume_profile = vp',
                                  volume_decline = volume_decline_score daily_pair,
                                  poc_distance = p'\<rparr>]\<rparr>"
    by blast
  from vp vp' have "vp' = vp" by simp
  with p p' have "p' = p" by simp
  then show ?thesis
    by (simp add: a b verdict_def failed_def)
qed

end
